theory Spec2Isabelle
  imports Main
begin

section \<open>Strings, numbers and paths\<close>

text \<open>
  JavaScript strings are modelled as \<open>string\<close>; a template literal is a concatenation.
  Worker ids are the integers the code interpolates into names, printed in decimal as
  \<^verbatim>\<open>`${workerId}`\<close> prints an integer.
\<close>

definition digit :: "nat \<Rightarrow> char" where
  "digit d = ''0123456789'' ! d"

function show_nat :: "nat \<Rightarrow> string" where
  "show_nat n = (if n < 10 then [digit n] else show_nat (n div 10) @ [digit (n mod 10)])"
  by pat_completeness auto
termination
  by (relation "measure id") auto

declare show_nat.simps [simp del]

definition show_int :: "int \<Rightarrow> string" where
  "show_int i = (if i < 0 then ''-'' @ show_nat (nat (- i)) else show_nat (nat i))"

text \<open>
  \<^verbatim>\<open>path.join\<close>, \<^verbatim>\<open>basename\<close> and \<^verbatim>\<open>dirname\<close> of Node, for the paths this program builds:
  empty segments are skipped, segments are joined with a slash and repeated slashes are
  collapsed. The resolution of \<^verbatim>\<open>.\<close> and \<^verbatim>\<open>..\<close> segments is left out: the segments here come
  from \<^verbatim>\<open>process.cwd()\<close>, which is normalised, and from fixed names.
\<close>

fun collapse_slashes :: "string \<Rightarrow> string" where
  "collapse_slashes (a # b # cs) =
     (if a = CHR ''/'' \<and> b = CHR ''/'' then collapse_slashes (b # cs)
      else a # collapse_slashes (b # cs))"
| "collapse_slashes cs = cs"

fun intercalate :: "string \<Rightarrow> string list \<Rightarrow> string" where
  "intercalate sep [] = []"
| "intercalate sep [s] = s"
| "intercalate sep (s # t # ss) = s @ sep @ intercalate sep (t # ss)"

definition join :: "string list \<Rightarrow> string" where
  "join segs =
     (let p = collapse_slashes (intercalate ''/'' (filter (\<lambda>s. s \<noteq> []) segs))
      in if p = [] then ''.'' else p)"

definition basename :: "string \<Rightarrow> string" where
  "basename p = rev (takeWhile (\<lambda>c. c \<noteq> CHR ''/'') (rev p))"

definition dirname :: "string \<Rightarrow> string" where
  "dirname p =
     (if CHR ''/'' \<notin> set p then ''.''
      else let d = rev (drop 1 (dropWhile (\<lambda>c. c \<noteq> CHR ''/'') (rev p)))
           in if d = [] then ''/'' else d)"

section \<open>Data model (workers.ts)\<close>

text \<open>
  The interfaces \<^verbatim>\<open>WorkerStatus\<close> and \<^verbatim>\<open>WorkerInfo\<close>. An optional field is an \<open>option\<close>.
  The \<^verbatim>\<open>status\<close> strings are kept as strings: the document is written by another process
  and the reader casts without checking. \<^verbatim>\<open>percent\<close> is a JSON number; the code never
  computes with it, and integers are enough for the documents considered here.
\<close>

record Subagent =
  sa_name :: string
  sa_status :: string
  sa_message :: "string option"

record WorkerStatus =
  ws_status :: string
  ws_branch :: "string option"
  ws_current :: "string option"
  ws_percent :: "int option"
  ws_subagent :: "Subagent option"

record WorkerInfo =
  w_id :: int
  sessionName :: string
  worktreePath :: string
  logPath :: string
  running :: bool
  w_status :: "WorkerStatus option"

definition WORKER_COUNT :: int where
  "WORKER_COUNT = 4"

definition LOG_DIR :: string where
  "LOG_DIR = ''/tmp''"

record ProjectConfig =
  projectRoot :: string
  projectName :: string
  hiveDir :: string
  worktreeBase :: string

text \<open>\<^verbatim>\<open>getProjectConfig\<close>, with \<^verbatim>\<open>process.cwd()\<close> as its argument.\<close>

definition getProjectConfig :: "string \<Rightarrow> ProjectConfig" where
  "getProjectConfig cwd =
     \<lparr> projectRoot = cwd,
       projectName = basename cwd,
       hiveDir = join [cwd, ''.hive''],
       worktreeBase = join [dirname cwd, ''.worktrees'', basename cwd] \<rparr>"

definition getWorkerSessionName :: "string \<Rightarrow> int \<Rightarrow> string" where
  "getWorkerSessionName pname workerId = ''hive-'' @ pname @ ''-worker-'' @ show_int workerId"

definition getWorkerLogPath :: "string \<Rightarrow> int \<Rightarrow> string" where
  "getWorkerLogPath pname workerId =
     join [LOG_DIR, ''hive-'' @ pname @ ''-worker-'' @ show_int workerId @ ''.log'']"

definition getWorktreePath :: "string \<Rightarrow> int \<Rightarrow> string" where
  "getWorktreePath wbase workerId = join [wbase, ''worker-'' @ show_int workerId]"

section \<open>The session host and the filesystem\<close>

text \<open>
  The state outside the process: the filesystem (a map from paths to nodes), the sessions
  of the session host (by name), and the log of worktree creation attempts (each
  \<^verbatim>\<open>git worktree add\<close> the code runs: directory it runs in, path, branch).
\<close>

datatype node = Directory | File string

record session =
  s_cwd :: string
  s_piped :: "string option"
  s_mouse :: bool
  s_sent :: "string list"

record world =
  nodes :: "string \<rightharpoonup> node"
  sessions :: "string \<rightharpoonup> session"
  git_calls :: "(string \<times> string \<times> string) list"

text \<open>
  Every call to the outside can fail for reasons the program does not see (the binary is
  absent, a permission is missing). The oracle \<open>ok\<close> of the host decides, for each call and
  state, whether the outside lets it succeed; the rest of a call's result follows from
  the state. \<^verbatim>\<open>JSON.parse\<close> belongs to the runtime: \<open>None\<close> is its \<^verbatim>\<open>SyntaxError\<close>, and the
  unchecked cast to the interface is part of it. A configuration object is a map from
  keys to values. \<open>describe\<close> is the text \<^verbatim>\<open>`${error}`\<close> prints for a caught error.
\<close>

datatype call =
    HasSession string
  | NewSession string string
  | PipePane string string
  | SetMouse string
  | SendKeys string string
  | KillSession string
  | Shell string
  | GitWorktreeAdd string string string
  | Mkdir string
  | WriteFile string
  | ReadFile string
  | Stat string
  | Sleep

datatype exn = IOError call | SyntaxError

type_synonym HiveConfig = "string \<rightharpoonup> string"

record host =
  ok :: "call \<Rightarrow> world \<Rightarrow> bool"
  parse_status :: "string \<Rightarrow> WorkerStatus option"
  parse_config :: "string \<Rightarrow> HiveConfig option"
  describe :: "exn \<Rightarrow> string"

definition existsSync :: "world \<Rightarrow> string \<Rightarrow> bool" where
  "existsSync w p = (nodes w p \<noteq> None)"

definition readFileSync :: "host \<Rightarrow> world \<Rightarrow> string \<Rightarrow> exn + string" where
  "readFileSync h w p =
     (case nodes w p of
        Some (File c) \<Rightarrow> if ok h (ReadFile p) w then Inr c else Inl (IOError (ReadFile p))
      | _ \<Rightarrow> Inl (IOError (ReadFile p)))"

definition JSON_parse :: "(string \<Rightarrow> 'a option) \<Rightarrow> string \<Rightarrow> exn + 'a" where
  "JSON_parse p c = (case p c of None \<Rightarrow> Inl SyntaxError | Some v \<Rightarrow> Inr v)"

text \<open>\<^verbatim>\<open>sessionExists\<close>: \<^verbatim>\<open>tmux has-session\<close>, any failure read as "does not exist".\<close>

definition sessionExists :: "host \<Rightarrow> string \<Rightarrow> world \<Rightarrow> bool" where
  "sessionExists h sname w = (ok h (HasSession sname) w \<and> sessions w sname \<noteq> None)"

section \<open>Status store and aggregation (workers.ts)\<close>

definition statusFile :: "string \<Rightarrow> int \<Rightarrow> string" where
  "statusFile hdir workerId = join [hdir, ''status'', ''worker-'' @ show_int workerId @ ''.json'']"

text \<open>
  \<^verbatim>\<open>readWorkerStatus\<close>. The result type keeps a place for an exception that would leave
  the function; the \<^verbatim>\<open>try\<close> block is the inner computation and \<^verbatim>\<open>catch\<close> maps its failure
  to \<^verbatim>\<open>undefined\<close>.
\<close>

definition readWorkerStatus :: "host \<Rightarrow> world \<Rightarrow> string \<Rightarrow> int \<Rightarrow> exn + WorkerStatus option" where
  "readWorkerStatus h w hdir workerId =
     (let sf = statusFile hdir workerId in
      if \<not> existsSync w sf then Inr None
      else (case (case readFileSync h w sf of
                    Inl e \<Rightarrow> Inl e
                  | Inr content \<Rightarrow> JSON_parse (parse_status h) content) of
              Inl e \<Rightarrow> Inr None
            | Inr v \<Rightarrow> Inr (Some v)))"

text \<open>
  \<^verbatim>\<open>getWorkersInfo\<close>: the loop \<^verbatim>\<open>for (let i = 1; i <= WORKER_COUNT; i++)\<close>. An exception of
  \<^verbatim>\<open>readWorkerStatus\<close> would leave the loop.
\<close>

definition workerInfo :: "host \<Rightarrow> world \<Rightarrow> ProjectConfig \<Rightarrow> int \<Rightarrow> exn + WorkerInfo" where
  "workerInfo h w config i =
     (let sn = getWorkerSessionName (projectName config) i;
          wp = getWorktreePath (worktreeBase config) i;
          lp = getWorkerLogPath (projectName config) i;
          r = sessionExists h sn w
      in case readWorkerStatus h w (hiveDir config) i of
           Inl e \<Rightarrow> Inl e
         | Inr st \<Rightarrow> Inr \<lparr> w_id = i, sessionName = sn, worktreePath = wp, logPath = lp,
                           running = r, w_status = st \<rparr>)"

text \<open>The record a round builds for slot \<open>i\<close>, written out.\<close>

definition snapshot_entry :: "host \<Rightarrow> world \<Rightarrow> ProjectConfig \<Rightarrow> int \<Rightarrow> WorkerInfo" where
  "snapshot_entry h w config i =
     \<lparr> w_id = i,
       sessionName = getWorkerSessionName (projectName config) i,
       worktreePath = getWorktreePath (worktreeBase config) i,
       logPath = getWorkerLogPath (projectName config) i,
       running = sessionExists h (getWorkerSessionName (projectName config) i) w,
       w_status = (case readWorkerStatus h w (hiveDir config) i of Inl e \<Rightarrow> None | Inr st \<Rightarrow> st) \<rparr>"

function getWorkersInfo_loop ::
  "host \<Rightarrow> world \<Rightarrow> ProjectConfig \<Rightarrow> int \<Rightarrow> WorkerInfo list \<Rightarrow> exn + WorkerInfo list" where
  "getWorkersInfo_loop h w config i workers =
     (if i \<le> WORKER_COUNT
      then (case workerInfo h w config i of
              Inl e \<Rightarrow> Inl e
            | Inr info \<Rightarrow> getWorkersInfo_loop h w config (i + 1) (workers @ [info]))
      else Inr workers)"
  by pat_completeness auto
termination
  by (relation "measure (\<lambda>(h, w, config, i, workers). nat (WORKER_COUNT + 1 - i))") auto

declare getWorkersInfo_loop.simps [simp del]

definition getWorkersInfo :: "host \<Rightarrow> world \<Rightarrow> string \<Rightarrow> exn + WorkerInfo list" where
  "getWorkersInfo h w cwd = getWorkersInfo_loop h w (getProjectConfig cwd) 1 []"

section \<open>The dashboard's status poll (hooks/useWorkerStatus.ts)\<close>

text \<open>
  \<^verbatim>\<open>useWorkerStatus\<close> holds the list of workers in a React state cell. The cell starts as
  \<^verbatim>\<open>getWorkersInfo()\<close> and every tick of the interval runs \<^verbatim>\<open>setWorkers(getWorkersInfo())\<close>:
  the new value of the cell is the fresh snapshot, whatever the cell held.
\<close>

definition useWorkerStatus_init :: "host \<Rightarrow> world \<Rightarrow> string \<Rightarrow> exn + WorkerInfo list" where
  "useWorkerStatus_init h w cwd = getWorkersInfo h w cwd"

definition useWorkerStatus_poll ::
  "host \<Rightarrow> world \<Rightarrow> string \<Rightarrow> WorkerInfo list \<Rightarrow> exn + WorkerInfo list" where
  "useWorkerStatus_poll h w cwd workers = getWorkersInfo h w cwd"

text \<open>The hook over time: the first world is the one at mount, the others those at the ticks.\<close>

fun useWorkerStatus_polls ::
  "host \<Rightarrow> world list \<Rightarrow> string \<Rightarrow> WorkerInfo list \<Rightarrow> exn + WorkerInfo list" where
  "useWorkerStatus_polls h [] cwd workers = Inr workers"
| "useWorkerStatus_polls h (w # ws) cwd workers =
     (case useWorkerStatus_poll h w cwd workers of
        Inl e \<Rightarrow> Inl e
      | Inr workers' \<Rightarrow> useWorkerStatus_polls h ws cwd workers')"

definition useWorkerStatus :: "host \<Rightarrow> world \<Rightarrow> world list \<Rightarrow> string \<Rightarrow> exn + WorkerInfo list" where
  "useWorkerStatus h w0 ws cwd =
     (case useWorkerStatus_init h w0 cwd of
        Inl e \<Rightarrow> Inl e
      | Inr workers \<Rightarrow> useWorkerStatus_polls h ws cwd workers)"

text \<open>The status the cell shows for a slot (slots count from 1), absent when there is none.\<close>

definition shown_status :: "exn + WorkerInfo list \<Rightarrow> int \<Rightarrow> WorkerStatus option" where
  "shown_status r i =
     (case r of
        Inl e \<Rightarrow> None
      | Inr workers \<Rightarrow>
          if 1 \<le> i \<and> nat i \<le> length workers then w_status (workers ! (nat i - 1)) else None)"

definition shown_percent :: "exn + WorkerInfo list \<Rightarrow> int \<Rightarrow> int option" where
  "shown_percent r i = (case shown_status r i of None \<Rightarrow> None | Some st \<Rightarrow> ws_percent st)"

section \<open>Configuration (config.ts)\<close>

definition CONFIG_FILENAME :: string where
  "CONFIG_FILENAME = ''config.json''"

text \<open>\<^verbatim>\<open>GLOBAL_CONFIG_PATH\<close>, with \<^verbatim>\<open>homedir()\<close> as its argument.\<close>

definition GLOBAL_CONFIG_PATH :: "string \<Rightarrow> string" where
  "GLOBAL_CONFIG_PATH home = join [join [home, ''.config'', ''hivecode''], CONFIG_FILENAME]"

definition getLocalConfigPath :: "string \<Rightarrow> string" where
  "getLocalConfigPath root = join [root, ''.hive'', CONFIG_FILENAME]"

text \<open>
  \<^verbatim>\<open>readConfigFile\<close>: the whole body is inside \<^verbatim>\<open>try\<close>, the \<^verbatim>\<open>catch\<close> is empty, and the
  function ends with \<^verbatim>\<open>return {}\<close>.
\<close>

definition readConfigFile :: "host \<Rightarrow> world \<Rightarrow> string \<Rightarrow> exn + HiveConfig" where
  "readConfigFile h w p =
     (case (if existsSync w p
            then (case readFileSync h w p of
                    Inl e \<Rightarrow> Inl e
                  | Inr content \<Rightarrow>
                      (case JSON_parse (parse_config h) content of
                         Inl e \<Rightarrow> Inl e
                       | Inr v \<Rightarrow> Inr (Some v)))
            else Inr None) of
        Inr (Some v) \<Rightarrow> Inr v
      | _ \<Rightarrow> Inr Map.empty)"

definition getGlobalConfig :: "host \<Rightarrow> world \<Rightarrow> string \<Rightarrow> exn + HiveConfig" where
  "getGlobalConfig h w home = readConfigFile h w (GLOBAL_CONFIG_PATH home)"

definition getLocalConfig :: "host \<Rightarrow> world \<Rightarrow> string \<Rightarrow> exn + HiveConfig" where
  "getLocalConfig h w root = readConfigFile h w (getLocalConfigPath root)"

text \<open>
  \<^verbatim>\<open>getMergedConfig\<close>: \<^verbatim>\<open>projectRoot ? getLocalConfig(projectRoot) : {}\<close> takes the local
  level when the optional root is a non-empty string; the spread \<^verbatim>\<open>{ ...global, ...local }\<close>
  lets a key of the local object win.
\<close>

definition getMergedConfig :: "host \<Rightarrow> world \<Rightarrow> string \<Rightarrow> string option \<Rightarrow> exn + HiveConfig" where
  "getMergedConfig h w home root =
     (case getGlobalConfig h w home of
        Inl e \<Rightarrow> Inl e
      | Inr global \<Rightarrow>
          (case (case root of
                   None \<Rightarrow> Inr Map.empty
                 | Some r \<Rightarrow> if r = [] then Inr Map.empty else getLocalConfig h w r) of
             Inl e \<Rightarrow> Inl e
           | Inr local \<Rightarrow> Inr (global ++ local)))"

definition getConfigValue ::
  "host \<Rightarrow> world \<Rightarrow> string \<Rightarrow> string \<Rightarrow> string option \<Rightarrow> exn + string option" where
  "getConfigValue h w home key root =
     (case getMergedConfig h w home root of
        Inl e \<Rightarrow> Inl e
      | Inr config \<Rightarrow> Inr (config key))"

text \<open>
  A level gives no configuration when its file is missing, cannot be read, or holds text
  that \<^verbatim>\<open>JSON.parse\<close> rejects.
\<close>

definition no_config :: "host \<Rightarrow> world \<Rightarrow> string \<Rightarrow> bool" where
  "no_config h w p =
     (case nodes w p of
        None \<Rightarrow> True
      | Some Directory \<Rightarrow> True
      | Some (File c) \<Rightarrow> \<not> ok h (ReadFile p) w \<or> parse_config h c = None)"

definition has_config :: "host \<Rightarrow> world \<Rightarrow> string \<Rightarrow> HiveConfig \<Rightarrow> bool" where
  "has_config h w p v =
     (case nodes w p of
        Some (File c) \<Rightarrow> ok h (ReadFile p) w \<and> parse_config h c = Some v
      | _ \<Rightarrow> False)"

section \<open>Worktree provisioner (workers.ts)\<close>

definition mkdirSync :: "host \<Rightarrow> string \<Rightarrow> world \<Rightarrow> exn + world" where
  "mkdirSync h p w =
     (if ok h (Mkdir p) w then Inr (w\<lparr>nodes := (nodes w)(p \<mapsto> Directory)\<rparr>)
      else Inl (IOError (Mkdir p)))"

definition writeFileSync :: "host \<Rightarrow> string \<Rightarrow> string \<Rightarrow> world \<Rightarrow> exn + world" where
  "writeFileSync h p content w =
     (if ok h (WriteFile p) w \<and> nodes w p \<noteq> Some Directory
      then Inr (w\<lparr>nodes := (nodes w)(p \<mapsto> File content)\<rparr>)
      else Inl (IOError (WriteFile p)))"

text \<open>
  The shell line of \<^verbatim>\<open>createWorktree\<close> ends in \<^verbatim>\<open>|| true\<close>: it exits with 0 whether or not
  git made the worktree, so \<^verbatim>\<open>execSync\<close> throws only when the shell cannot be started in
  \<^verbatim>\<open>projectRoot\<close>. Each run is one creation attempt and is recorded in \<open>git_calls\<close>.
\<close>

definition git_worktree_add :: "host \<Rightarrow> string \<Rightarrow> string \<Rightarrow> string \<Rightarrow> world \<Rightarrow> bool \<times> world" where
  "git_worktree_add h root p b w =
     (let w1 = w\<lparr>git_calls := git_calls w @ [(root, p, b)]\<rparr> in
      if \<not> ok h (Shell root) w then (False, w1)
      else if ok h (GitWorktreeAdd root p b) w
           then (True, w1\<lparr>nodes := (nodes w1)(p \<mapsto> Directory)\<rparr>)
           else (True, w1))"

text \<open>
  \<^verbatim>\<open>createWorktree\<close>. \<^verbatim>\<open>mkdirSync\<close> is outside the \<^verbatim>\<open>try\<close>: its failure leaves the function.
  \<^verbatim>\<open>branch || `worker-${workerId}-workspace`\<close> takes the default for an absent or empty
  branch.
\<close>

definition createWorktree ::
  "host \<Rightarrow> string \<Rightarrow> string \<Rightarrow> int \<Rightarrow> string option \<Rightarrow> world \<Rightarrow> (exn + string) \<times> world" where
  "createWorktree h root wbase workerId branch w =
     (let wtp = getWorktreePath wbase workerId in
      case (if \<not> existsSync w wbase then mkdirSync h wbase w else Inr w) of
        Inl e \<Rightarrow> (Inl e, w)
      | Inr w1 \<Rightarrow>
          if existsSync w1 wtp then (Inr wtp, w1)
          else
            let workspaceBranch =
                  (case branch of
                     None \<Rightarrow> ''worker-'' @ show_int workerId @ ''-workspace''
                   | Some b \<Rightarrow> if b = [] then ''worker-'' @ show_int workerId @ ''-workspace'' else b)
            in case git_worktree_add h root wtp workspaceBranch w1 of
                 (False, w2) \<Rightarrow> (Inr root, w2)
               | (True, w2) \<Rightarrow> (Inr (if existsSync w2 wtp then wtp else root), w2))"


section \<open>Worker lifecycle (workers.ts)\<close>

text \<open>
  The session host's commands. A command fails when the outside refuses it or when its
  target is not as the command needs (a new session whose name is taken, any other
  command on a session that is not there); \<^verbatim>\<open>execSync\<close> then throws. Session names are
  matched exactly.
\<close>

definition tmux :: "host \<Rightarrow> call \<Rightarrow> world \<Rightarrow> exn + world" where
  "tmux h c w =
     (if \<not> ok h c w then Inl (IOError c)
      else case c of
        NewSession n d \<Rightarrow>
          (case sessions w n of
             None \<Rightarrow> Inr (w\<lparr>sessions := (sessions w)
                        (n \<mapsto> \<lparr>s_cwd = d, s_piped = None, s_mouse = False, s_sent = []\<rparr>)\<rparr>)
           | Some s \<Rightarrow> Inl (IOError c))
      | PipePane n cmd \<Rightarrow>
          (case sessions w n of
             None \<Rightarrow> Inl (IOError c)
           | Some s \<Rightarrow> Inr (w\<lparr>sessions := (sessions w)(n \<mapsto> s\<lparr>s_piped := Some cmd\<rparr>)\<rparr>))
      | SetMouse n \<Rightarrow>
          (case sessions w n of
             None \<Rightarrow> Inl (IOError c)
           | Some s \<Rightarrow> Inr (w\<lparr>sessions := (sessions w)(n \<mapsto> s\<lparr>s_mouse := True\<rparr>)\<rparr>))
      | SendKeys n keys \<Rightarrow>
          (case sessions w n of
             None \<Rightarrow> Inl (IOError c)
           | Some s \<Rightarrow> Inr (w\<lparr>sessions := (sessions w)(n \<mapsto> s\<lparr>s_sent := s_sent s @ [keys]\<rparr>)\<rparr>))
      | KillSession n \<Rightarrow>
          (case sessions w n of
             None \<Rightarrow> Inl (IOError c)
           | Some s \<Rightarrow> Inr (w\<lparr>sessions := (sessions w)(n := None)\<rparr>))
      | _ \<Rightarrow> Inr w)"

text \<open>A \<^verbatim>\<open>try\<close> block of \<^verbatim>\<open>execSync\<close> calls: they run in order and the first failure ends it.\<close>

fun execAll :: "host \<Rightarrow> call list \<Rightarrow> world \<Rightarrow> exn option \<times> world" where
  "execAll h [] w = (None, w)"
| "execAll h (c # cs) w =
     (case tmux h c w of
        Inl e \<Rightarrow> (Some e, w)
      | Inr w' \<Rightarrow> execAll h cs w')"

text \<open>
  What a lifecycle operation prints: lines on \<^verbatim>\<open>console.log\<close> and \<^verbatim>\<open>console.error\<close>, in
  order. An operation returns its result (or the exception that leaves it), what it
  printed and the state it leaves.
\<close>

datatype stream = Out | Err

type_synonym 'a outcome = "(exn + 'a) \<times> (stream \<times> string) list \<times> world"

definition ESC :: string where
  "ESC = [CHR 0x1B]"

definition bee :: string where
  "bee = [CHR 0xF0, CHR 0x9F, CHR 0x90, CHR 0x9D]"

definition check_mark :: string where
  "check_mark = [CHR 0xE2, CHR 0x9C, CHR 0x85]"

definition startWorker :: "host \<Rightarrow> string \<Rightarrow> int \<Rightarrow> world \<Rightarrow> bool outcome" where
  "startWorker h cwd workerId w =
     (let config = getProjectConfig cwd;
          sn = getWorkerSessionName (projectName config) workerId
      in if sessionExists h sn w
         then (Inr True, [(Out, ''  Worker-'' @ show_int workerId @ '' already running'')], w)
         else
           case createWorktree h (projectRoot config) (worktreeBase config) workerId None w of
             (Inl e, w1) \<Rightarrow> (Inl e, [], w1)
           | (Inr wtp, w1) \<Rightarrow>
               let lp = getWorkerLogPath (projectName config) workerId in
               case writeFileSync h lp [] w1 of
                 Inl e \<Rightarrow> (Inl e, [], w1)
               | Inr w2 \<Rightarrow>
                   (case execAll h
                           [NewSession sn wtp,
                            PipePane sn (''cat >> '' @ lp),
                            SetMouse sn,
                            SendKeys sn ''claude --dangerously-skip-permissions'']
                           w2 of
                      (None, w3) \<Rightarrow>
                        (Inr True,
                         [(Out, ''  Worker-'' @ show_int workerId @ '' started ('' @ sn @ '')'')],
                         w3)
                    | (Some e, w3) \<Rightarrow>
                        (Inr False,
                         [(Err, ''  Failed to start Worker-'' @ show_int workerId @ '': '' @ describe h e)],
                         w3)))"

definition stopWorker :: "host \<Rightarrow> string \<Rightarrow> int \<Rightarrow> world \<Rightarrow> bool outcome" where
  "stopWorker h cwd workerId w =
     (let config = getProjectConfig cwd;
          sn = getWorkerSessionName (projectName config) workerId
      in if \<not> sessionExists h sn w
         then (Inr False, [(Out, ''  Worker-'' @ show_int workerId @ '' not running'')], w)
         else
           case tmux h (SendKeys sn ''/exit'') w of
             Inr w1 \<Rightarrow> (Inr True, [(Out, ''  Worker-'' @ show_int workerId @ '' stopping...'')], w1)
           | Inl e \<Rightarrow>
               (Inr False,
                [(Err, ''  Failed to stop Worker-'' @ show_int workerId @ '': '' @ describe h e)],
                w))"

definition killWorker :: "host \<Rightarrow> string \<Rightarrow> int \<Rightarrow> world \<Rightarrow> bool outcome" where
  "killWorker h cwd workerId w =
     (let config = getProjectConfig cwd;
          sn = getWorkerSessionName (projectName config) workerId
      in if \<not> sessionExists h sn w
         then (Inr True, [], w)
         else
           case tmux h (KillSession sn) w of
             Inr w1 \<Rightarrow> (Inr True, [(Out, ''  Worker-'' @ show_int workerId @ '' killed'')], w1)
           | Inl e \<Rightarrow>
               (Inr False,
                [(Err, ''  Failed to kill Worker-'' @ show_int workerId @ '': '' @ describe h e)],
                w))"

text \<open>\<^verbatim>\<open>execSync('sleep 1')\<close> stands outside any \<^verbatim>\<open>try\<close>: its failure leaves \<^verbatim>\<open>restartWorker\<close>.\<close>

definition restartWorker :: "host \<Rightarrow> string \<Rightarrow> int \<Rightarrow> world \<Rightarrow> unit outcome" where
  "restartWorker h cwd workerId w =
     (if workerId < 1 \<or> workerId > WORKER_COUNT
      then (Inr (),
            [(Err, ESC @ ''[31mError: Worker ID must be 1-'' @ show_int WORKER_COUNT @ ESC @ ''[0m'')],
            w)
      else
        let banner = [(Out, ESC @ ''[34m'' @ bee @ '' Restarting Worker-'' @ show_int workerId @ ESC @ ''[0m''),
                      (Out, [])]
        in case killWorker h cwd workerId w of
             (Inl e, out1, w1) \<Rightarrow> (Inl e, banner @ out1, w1)
           | (Inr killed, out1, w1) \<Rightarrow>
               if \<not> ok h Sleep w1 then (Inl (IOError Sleep), banner @ out1, w1)
               else
                 case startWorker h cwd workerId w1 of
                   (Inl e, out2, w2) \<Rightarrow> (Inl e, banner @ out1 @ out2, w2)
                 | (Inr started, out2, w2) \<Rightarrow>
                     (Inr (),
                      banner @ out1 @ out2 @
                      [(Out, []),
                       (Out, ESC @ ''[32m'' @ check_mark @ '' Worker-'' @ show_int workerId @ '' restarted'' @ ESC @ ''[0m'')],
                      w2))"

text \<open>The result with the state it leaves, without the printed lines.\<close>

definition effect :: "'a outcome \<Rightarrow> (exn + unit) \<times> world" where
  "effect r = (case r of (res, out, w) \<Rightarrow> (map_sum id (\<lambda>_. ()) res, w))"

section \<open>The worker listing (workers.ts)\<close>

text \<open>
  \<^verbatim>\<open>listWorkers\<close> prints one line per worker and, when the status names a subagent, one
  more. \<^verbatim>\<open>a || b\<close> on an optional string takes \<open>b\<close> when \<open>a\<close> is absent or empty. The
  glyphs are the bytes of their UTF-8 encoding.
\<close>

definition or_else :: "string option \<Rightarrow> string \<Rightarrow> string" where
  "or_else a b = (case a of None \<Rightarrow> b | Some s \<Rightarrow> if s = [] then b else s)"

definition padEnd :: "nat \<Rightarrow> string \<Rightarrow> string" where
  "padEnd n s = s @ replicate (n - length s) CHR '' ''"

definition worker_lines :: "WorkerInfo \<Rightarrow> string list" where
  "worker_lines worker =
     (let statusIcon = (if running worker
                        then ESC @ ''[32m'' @ [CHR 0xE2, CHR 0x97, CHR 0x8F] @ ESC @ ''[0m''
                        else ESC @ ''[90m'' @ [CHR 0xE2, CHR 0x97, CHR 0x8B] @ ESC @ ''[0m'');
          statusText = (if running worker then ''running'' else ''stopped'');
          workerStatus = or_else (map_option ws_status (w_status worker)) ''unknown'';
          branch = or_else (Option.bind (w_status worker) ws_branch) ''-''
      in (''  '' @ statusIcon @ '' Worker-'' @ show_int (w_id worker) @ ''  '' @ padEnd 8 statusText
            @ ''  '' @ padEnd 12 workerStatus @ ''  '' @ branch)
         # (case Option.bind (w_status worker) ws_subagent of
              None \<Rightarrow> []
            | Some sa \<Rightarrow>
                [''      '' @ [CHR 0xE2, CHR 0x94, CHR 0x94, CHR 0xE2, CHR 0x94, CHR 0x80] @ '' [''
                   @ sa_name sa @ ''] '' @ sa_status sa @ '': '' @ or_else (sa_message sa) []]))"

definition listWorkers :: "host \<Rightarrow> world \<Rightarrow> string \<Rightarrow> exn + string list" where
  "listWorkers h w cwd =
     (let config = getProjectConfig cwd in
      case getWorkersInfo h w cwd of
        Inl e \<Rightarrow> Inl e
      | Inr workers \<Rightarrow>
          Inr ([ESC @ ''[34m'' @ bee @ '' HiveCode Workers'' @ ESC @ ''[0m'',
                ''   Project: '' @ projectName config,
                []]
               @ concat (map worker_lines workers)
               @ [[]]))"

section \<open>The dashboard card (dashboard/components/WorkerCard.tsx)\<close>

text \<open>
  What \<^verbatim>\<open>WorkerCard\<close> renders, row by row (\<open>renderCard\<close> is the body of the component): every \<^verbatim>\<open>Text\<close> with the key of its theme colour
  and its content, the spinner, and the border; paddings and flex properties are left
  out. The arguments are the terminal width (\<^verbatim>\<open>stdout?.columns\<close>), the worker, the lines of
  \<^verbatim>\<open>useWorkerLogs\<close>, and the flags \<^verbatim>\<open>selected\<close> and \<^verbatim>\<open>compact\<close>. Lengths count the characters
  of the model's strings. \<^verbatim>\<open>Math.floor(contentWidth * 0.4)\<close> is the integer quotient.
\<close>

datatype ink = Text string string | Spinner

record card =
  borderStyle :: string
  borderColor :: string
  rows :: "ink list list"

definition STATUS_ICONS :: "(string \<times> string \<times> string) list" where
  "STATUS_ICONS =
     [(''idle'', [CHR 0xE2, CHR 0x97, CHR 0x8B], ''textDim''),
      (''coding'', [CHR 0xE2, CHR 0x97, CHR 0x8F], ''success''),
      (''testing'', [CHR 0xE2, CHR 0x97, CHR 0x90], ''warning''),
      (''reviewing'', [CHR 0xE2, CHR 0x97, CHR 0x8F], ''info''),
      (''ready_for_review'', [CHR 0xE2, CHR 0x97, CHR 0x89], ''info''),
      (''approved'', [CHR 0xE2, CHR 0x9C, CHR 0x93], ''success''),
      (''unknown'', ''?'', ''textDim'')]"

definition statusConfig :: "string \<Rightarrow> string \<times> string" where
  "statusConfig st = (case map_of STATUS_ICONS st of Some cfg \<Rightarrow> cfg | None \<Rightarrow> (''?'', ''textDim''))"

definition slice_last :: "nat \<Rightarrow> 'a list \<Rightarrow> 'a list" where
  "slice_last n xs = drop (length xs - n) xs"

definition renderCard ::
  "nat option \<Rightarrow> int \<Rightarrow> bool \<Rightarrow> string option \<Rightarrow> string option \<Rightarrow> string option
     \<Rightarrow> Subagent option \<Rightarrow> string list \<Rightarrow> bool \<Rightarrow> bool \<Rightarrow> card" where
  "renderCard columns worker_id worker_running status_status status_branch status_current subagent
       logs selected compact =
     (let termWidth = (case columns of None \<Rightarrow> 80 | Some n \<Rightarrow> if n = 0 then 80 else n);
          status = or_else status_status (if worker_running then ''idle'' else ''stopped'');
          icon = fst (statusConfig status);
          statusColor = snd (statusConfig status);
          branch = or_else status_branch [CHR 0xE2, CHR 0x80, CHR 0x94];
          current = or_else status_current [];
          contentWidth = max (termWidth - 4) 20;
          logLineWidth = max (contentWidth - 2) 15;
          recentLogs = slice_last (if compact then 5 else 4) logs;
          bstyle = (if selected then ''bold'' else ''single'');
          bcolor = (if selected then ''brand''
                    else if worker_running then ''border'' else ''borderInactive'')
      in if compact
         then
           (let branchMaxLen = max (contentWidth * 4 div 10) 10;
                displayBranch = (if length branch > branchMaxLen
                                 then take (branchMaxLen - 1) branch @ [CHR 0xE2, CHR 0x80, CHR 0xA6]
                                 else branch)
            in \<lparr> borderStyle = bstyle, borderColor = bcolor,
                 rows =
                   [Text (if worker_running then ''text'' else ''textDim'') (''W'' @ show_int worker_id),
                    Text ''textDim'' '' '', Text statusColor icon, Text ''textDim'' '' '',
                    Text ''info'' displayBranch]
                   # (if worker_running
                      then (if current \<noteq> [] then [[Text ''text'' (take logLineWidth current)]] else [])
                           @ (case subagent of
                                None \<Rightarrow> []
                              | Some sa \<Rightarrow>
                                  [(if sa_status sa = ''running'' then [Spinner] else [])
                                   @ [Text (if sa_status sa = ''running'' then ''warning''
                                            else if sa_status sa = ''passed'' then ''success''
                                            else ''error'')
                                        ((if sa_status sa = ''running'' then '' ''
                                          else if sa_status sa = ''passed''
                                          then [CHR 0xE2, CHR 0x9C, CHR 0x93] @ '' ''
                                          else [CHR 0xE2, CHR 0x9C, CHR 0x97] @ '' '')
                                         @ ''['' @ sa_name sa @ ''] '' @ or_else (sa_message sa) [])]])
                           @ (if recentLogs \<noteq> []
                              then map (\<lambda>line. [Text ''textDim'' (take logLineWidth line)]) recentLogs
                              else if current = [] \<and> subagent = None
                              then [[Text ''textDim'' ''initializing...'']]
                              else [])
                      else [[Text ''textDim'' ''(stopped)'']]) \<rparr>)
         else
           \<lparr> borderStyle = bstyle, borderColor = bcolor,
             rows =
               [Text (if worker_running then ''text'' else ''textDim'') (''Worker-'' @ show_int worker_id),
                Text ''textDim'' ''  '', Text ''info'' branch, Text ''textDim'' ''  '',
                Text statusColor (icon @ '' '' @ status)]
               # [Text ''textDim''
                    (concat (replicate (max (contentWidth - 2) 10) [CHR 0xE2, CHR 0x94, CHR 0x80]))]
               # (if worker_running
                  then (if recentLogs \<noteq> []
                        then map (\<lambda>line. [Text ''textDim'' (take logLineWidth line)]) recentLogs
                        else [[Text ''textDim'' ''(initializing...)'']])
                       @ (case subagent of
                            None \<Rightarrow> []
                          | Some sa \<Rightarrow>
                              [if sa_status sa = ''running''
                               then [Spinner,
                                     Text ''warning'' ('' ['' @ sa_name sa @ ''] ''
                                                       @ or_else (sa_message sa) ''Running...'')]
                               else if sa_status sa = ''passed''
                               then [Text ''success''
                                       ([CHR 0xE2, CHR 0x9C, CHR 0x93] @ '' ['' @ sa_name sa @ ''] Passed'')]
                               else [Text ''error''
                                       ([CHR 0xE2, CHR 0x9C, CHR 0x97] @ '' ['' @ sa_name sa @ ''] ''
                                        @ or_else (sa_message sa) ''Failed'')]])
                  else [[Text ''textDim'' ''(not running)'']]) \<rparr>)"

text \<open>
  The component reads from the worker its id, \<^verbatim>\<open>running\<close>, and \<^verbatim>\<open>status?.status\<close>,
  \<^verbatim>\<open>status?.branch\<close>, \<^verbatim>\<open>status?.current\<close> and \<^verbatim>\<open>status?.subagent\<close>.
\<close>

definition WorkerCard :: "nat option \<Rightarrow> WorkerInfo \<Rightarrow> string list \<Rightarrow> bool \<Rightarrow> bool \<Rightarrow> card" where
  "WorkerCard columns worker logs selected compact =
     renderCard columns (w_id worker) (running worker)
       (map_option ws_status (w_status worker))
       (Option.bind (w_status worker) ws_branch)
       (Option.bind (w_status worker) ws_current)
       (Option.bind (w_status worker) ws_subagent)
       logs selected compact"

section \<open>Log tail (hooks/useWorkerLogs.ts)\<close>

text \<open>
  The hook keeps the size it last saw (\<^verbatim>\<open>lastSizeRef\<close>) and the lines it shows. The size is
  the byte count \<^verbatim>\<open>statSync\<close> reports. The size a directory reports plays no part: reading
  it fails and the state stays as it was.
\<close>

record tail_state =
  lastSize :: nat
  lines :: "string list"

definition MAX_LINES :: nat where
  "MAX_LINES = 100"

definition statSync :: "host \<Rightarrow> world \<Rightarrow> string \<Rightarrow> exn + nat" where
  "statSync h w p =
     (if \<not> ok h (Stat p) w then Inl (IOError (Stat p))
      else case nodes w p of
             None \<Rightarrow> Inl (IOError (Stat p))
           | Some Directory \<Rightarrow> Inr 0
           | Some (File c) \<Rightarrow> Inr (length c))"

text \<open>\<^verbatim>\<open>content.split('\n')\<close>: the pieces between line feeds, empty pieces included.\<close>

fun split_lines :: "string \<Rightarrow> string list" where
  "split_lines [] = [[]]"
| "split_lines (c # cs) =
     (if c = CHR 0x0A then [] # split_lines cs
      else (case split_lines cs of
              [] \<Rightarrow> [[c]]
            | l # ls \<Rightarrow> (c # l) # ls))"

text \<open>\<^verbatim>\<open>line.trim() !== ''\<close>: the line has a character that is not (ASCII) white space.\<close>

definition is_space :: "char \<Rightarrow> bool" where
  "is_space c = (c \<in> set [CHR '' '', CHR 0x09, CHR 0x0A, CHR 0x0B, CHR 0x0C, CHR 0x0D])"

definition recent_lines :: "string \<Rightarrow> string list" where
  "recent_lines content =
     (let allLines = filter (\<lambda>line. \<not> list_all is_space line) (split_lines content)
      in drop (length allLines - MAX_LINES) allLines)"

definition pollLog :: "host \<Rightarrow> world \<Rightarrow> string \<Rightarrow> tail_state \<Rightarrow> tail_state" where
  "pollLog h w p st =
     (if \<not> existsSync w p then st
      else case statSync h w p of
             Inl e \<Rightarrow> st
           | Inr currentSize \<Rightarrow>
               if currentSize > lastSize st
               then (case readFileSync h w p of
                       Inl e \<Rightarrow> st
                     | Inr content \<Rightarrow> \<lparr> lastSize = currentSize, lines = recent_lines content \<rparr>)
               else st)"

text \<open>
  The hook over time: the effect resets the state, polls once, then polls at every tick;
  each poll sees the filesystem of its moment.
\<close>

definition useWorkerLogs_reset :: tail_state where
  "useWorkerLogs_reset = \<lparr> lastSize = 0, lines = [] \<rparr>"

fun pollLogs :: "host \<Rightarrow> world list \<Rightarrow> string \<Rightarrow> tail_state \<Rightarrow> tail_state" where
  "pollLogs h [] p st = st"
| "pollLogs h (w # ws) p st = pollLogs h ws p (pollLog h w p st)"

definition useWorkerLogs :: "host \<Rightarrow> world list \<Rightarrow> string \<Rightarrow> int \<Rightarrow> tail_state" where
  "useWorkerLogs h ws pname workerId =
     pollLogs h ws (getWorkerLogPath pname workerId) useWorkerLogs_reset"

section \<open>Modal key dispatcher (embedded/keybindings.ts)\<close>

























section \<open>Concrete scenarios\<close>

text \<open>
  A project at \<^verbatim>\<open>/home/u/proj\<close> and a host that lets every call succeed. Its runtime parses
  the documents used below as \<^verbatim>\<open>JSON.parse\<close> does: the status document of the specification's
  scenario and two configuration documents are accepted, truncated text is rejected.
\<close>

definition scenario_cwd :: string where
  "scenario_cwd = ''/home/u/proj''"

definition scenario_home :: string where
  "scenario_home = ''/home/u''"

definition coding_text :: string where
  \<open>coding_text = ''{"status":"coding","branch":"feature/x","percent":150}''\<close>

definition coding_doc :: WorkerStatus where
  "coding_doc = \<lparr> ws_status = ''coding'', ws_branch = Some ''feature/x'', ws_current = None,
                  ws_percent = Some 150, ws_subagent = None \<rparr>"

definition half_written_text :: string where
  \<open>half_written_text = ''{"status":"coding","bra''\<close>

definition dark_text :: string where
  \<open>dark_text = ''{"theme":"dark"}''\<close>

definition light_text :: string where
  \<open>light_text = ''{"theme":"light"}''\<close>

definition scenario_parse_status :: "string \<Rightarrow> WorkerStatus option" where
  "scenario_parse_status c = (if c = coding_text then Some coding_doc else None)"

definition scenario_parse_config :: "string \<Rightarrow> HiveConfig option" where
  "scenario_parse_config c =
     (if c = dark_text then Some [''theme'' \<mapsto> ''dark'']
      else if c = light_text then Some [''theme'' \<mapsto> ''light'']
      else None)"

definition scenario_host :: host where
  "scenario_host = \<lparr> ok = (\<lambda>c w. True), parse_status = scenario_parse_status,
                     parse_config = scenario_parse_config, describe = (\<lambda>e. ''Error'') \<rparr>"

text \<open>The same host, except that the session host refuses every \<^verbatim>\<open>send-keys\<close>.\<close>

definition deaf_host :: host where
  "deaf_host = scenario_host\<lparr> ok := (\<lambda>c w. case c of SendKeys n keys \<Rightarrow> False | _ \<Rightarrow> True) \<rparr>"

definition bare_world :: world where
  "bare_world = \<lparr> nodes = Map.empty, sessions = Map.empty, git_calls = [] \<rparr>"

definition with_file :: "string \<Rightarrow> string \<Rightarrow> world \<Rightarrow> world" where
  "with_file p c w = w\<lparr> nodes := (nodes w)(p \<mapsto> File c) \<rparr>"

definition with_session :: "string \<Rightarrow> string \<Rightarrow> world \<Rightarrow> world" where
  "with_session n d w =
     w\<lparr> sessions := (sessions w)(n \<mapsto> \<lparr>s_cwd = d, s_piped = None, s_mouse = False, s_sent = []\<rparr>) \<rparr>"

text \<open>
  Slot 1 of the project runs and has written the scenario's status document; then the same
  state at a moment when the document is half written.
\<close>

definition status1_path :: string where
  "status1_path = ''/home/u/proj/.hive/status/worker-1.json''"

definition coding_world :: world where
  "coding_world =
     with_session ''hive-proj-worker-1'' ''/home/u/.worktrees/proj/worker-1''
       (with_file status1_path coding_text bare_world)"

definition torn_world :: world where
  "torn_world = with_file status1_path half_written_text coding_world"


text \<open>Configuration files: a global one that sets the theme, a local one cut short, and the reverse.\<close>

definition global_path :: string where
  "global_path = ''/home/u/.config/hivecode/config.json''"

definition local_path :: string where
  "local_path = ''/home/u/proj/.hive/config.json''"

definition corrupt_local_world :: world where
  "corrupt_local_world =
     with_file local_path half_written_text (with_file global_path dark_text bare_world)"

definition corrupt_global_world :: world where
  "corrupt_global_world =
     with_file global_path half_written_text (with_file local_path light_text bare_world)"

definition corrupt_both_world :: world where
  "corrupt_both_world =
     with_file global_path half_written_text (with_file local_path half_written_text bare_world)"

text \<open>
  The log of slot 1 with two lines; the same path after the file was replaced by a shorter
  one; and that shorter file after more was appended to it (still shorter than the first).
\<close>

definition log1_path :: string where
  "log1_path = ''/tmp/hive-proj-worker-1.log''"

definition two_lines_text :: string where
  "two_lines_text = ''line one'' @ [CHR 0x0A] @ ''line two'' @ [CHR 0x0A]"

definition fresh_text :: string where
  "fresh_text = ''fresh'' @ [CHR 0x0A]"

definition grown_text :: string where
  "grown_text = ''fresh'' @ [CHR 0x0A] @ ''more'' @ [CHR 0x0A]"

definition long_log_world :: world where
  "long_log_world = with_file log1_path two_lines_text bare_world"

definition short_log_world :: world where
  "short_log_world = with_file log1_path fresh_text bare_world"

definition grown_log_world :: world where
  "grown_log_world = with_file log1_path grown_text bare_world"






section \<open>Basic facts about names and paths\<close>

lemma show_nat_small: "n < 10 \<Longrightarrow> show_nat n = [digit n]"
  by (subst show_nat.simps) simp

lemma show_int_small [simp]:
  "show_int 1 = ''1''" "show_int 2 = ''2''" "show_int 3 = ''3''" "show_int 4 = ''4''"
  by (simp_all add: show_int_def show_nat_small digit_def)

lemma scenario_paths [simp]:
  "getProjectConfig scenario_cwd =
     \<lparr> projectRoot = ''/home/u/proj'', projectName = ''proj'', hiveDir = ''/home/u/proj/.hive'',
       worktreeBase = ''/home/u/.worktrees/proj'' \<rparr>"
  "statusFile ''/home/u/proj/.hive'' 1 = ''/home/u/proj/.hive/status/worker-1.json''"
  "statusFile ''/home/u/proj/.hive'' 2 = ''/home/u/proj/.hive/status/worker-2.json''"
  "statusFile ''/home/u/proj/.hive'' 3 = ''/home/u/proj/.hive/status/worker-3.json''"
  "statusFile ''/home/u/proj/.hive'' 4 = ''/home/u/proj/.hive/status/worker-4.json''"
  "GLOBAL_CONFIG_PATH scenario_home = ''/home/u/.config/hivecode/config.json''"
  "getLocalConfigPath scenario_cwd = ''/home/u/proj/.hive/config.json''"
  by (simp_all add: getProjectConfig_def scenario_cwd_def scenario_home_def basename_def dirname_def
      join_def statusFile_def GLOBAL_CONFIG_PATH_def getLocalConfigPath_def CONFIG_FILENAME_def)

lemma scenario_names [simp]:
  "getWorktreePath ''/home/u/.worktrees/proj'' 2 = ''/home/u/.worktrees/proj/worker-2''"
  "getWorkerSessionName ''proj'' 1 = ''hive-proj-worker-1''"
  "getWorkerSessionName ''proj'' 2 = ''hive-proj-worker-2''"
  "getWorkerLogPath ''proj'' 1 = ''/tmp/hive-proj-worker-1.log''"
  "getWorkerLogPath ''proj'' 2 = ''/tmp/hive-proj-worker-2.log''"
  by (simp_all add: getWorktreePath_def getWorkerSessionName_def getWorkerLogPath_def join_def
      LOG_DIR_def)

section \<open>Properties of the status store and of aggregation\<close>

lemma readWorkerStatus_missing:
  "nodes w (statusFile hdir i) = None \<Longrightarrow> readWorkerStatus h w hdir i = Inr None"
  by (simp add: readWorkerStatus_def existsSync_def)

lemma readWorkerStatus_malformed:
  "nodes w (statusFile hdir i) = Some (File c) \<Longrightarrow> parse_status h c = None \<Longrightarrow>
   readWorkerStatus h w hdir i = Inr None"
  by (simp add: readWorkerStatus_def existsSync_def readFileSync_def JSON_parse_def Let_def)

lemma readWorkerStatus_parsed:
  "nodes w (statusFile hdir i) = Some (File c) \<Longrightarrow> ok h (ReadFile (statusFile hdir i)) w \<Longrightarrow>
   parse_status h c = Some d \<Longrightarrow> readWorkerStatus h w hdir i = Inr (Some d)"
  by (simp add: readWorkerStatus_def existsSync_def readFileSync_def JSON_parse_def Let_def)

lemma readWorkerStatus_returns: "\<exists>r. readWorkerStatus h w hdir i = Inr r"
  by (simp add: readWorkerStatus_def Let_def split: sum.splits)

text \<open>
  Claim C2. Whatever the slot and the state of the filesystem, reading the status document
  gives absent when the file is missing and when its text is not valid JSON, and the read
  never throws: its result is always a returned value.
\<close>

theorem readWorkerStatus_absent:
  "(nodes w (statusFile hdir i) = None \<longrightarrow> readWorkerStatus h w hdir i = Inr None) \<and>
   (\<forall>c. nodes w (statusFile hdir i) = Some (File c) \<and> parse_status h c = None
        \<longrightarrow> readWorkerStatus h w hdir i = Inr None) \<and>
   (\<exists>r. readWorkerStatus h w hdir i = Inr r)"
  using readWorkerStatus_missing readWorkerStatus_malformed readWorkerStatus_returns by blast

theorem readWorkerStatus_absent_witness:
  "nodes bare_world (statusFile ''/home/u/proj/.hive'' 3) = None \<and>
   readWorkerStatus scenario_host bare_world ''/home/u/proj/.hive'' 3 = Inr None \<and>
   nodes torn_world (statusFile ''/home/u/proj/.hive'' 1) = Some (File half_written_text) \<and>
   parse_status scenario_host half_written_text = None \<and>
   readWorkerStatus scenario_host torn_world ''/home/u/proj/.hive'' 1 = Inr None"
proof -
  have missing: "nodes bare_world (statusFile ''/home/u/proj/.hive'' 3) = None"
    by (simp add: bare_world_def)
  have torn: "nodes torn_world (statusFile ''/home/u/proj/.hive'' 1) = Some (File half_written_text)"
    by (simp add: torn_world_def with_file_def status1_path_def)
  have rejected: "parse_status scenario_host half_written_text = None"
    by (simp add: scenario_host_def scenario_parse_status_def half_written_text_def coding_text_def)
  from missing torn rejected
    readWorkerStatus_absent [of bare_world "''/home/u/proj/.hive''" 3 scenario_host]
    readWorkerStatus_absent [of torn_world "''/home/u/proj/.hive''" 1 scenario_host]
  show ?thesis by blast
qed

lemma workerInfo_eq: "workerInfo h w config i = Inr (snapshot_entry h w config i)"
  using readWorkerStatus_returns[of h w "hiveDir config" i]
  by (auto simp: workerInfo_def snapshot_entry_def Let_def)

lemma getWorkersInfo_eq:
  "getWorkersInfo h w cwd = Inr (map (snapshot_entry h w (getProjectConfig cwd)) [1, 2, 3, 4])"
  by (simp add: getWorkersInfo_def getWorkersInfo_loop.simps[of h w] workerInfo_eq WORKER_COUNT_def)

text \<open>
  Claim C9. For every host and filesystem state, one aggregation round returns exactly
  four records, with ids 1, 2, 3, 4 in this order, whose session name, worktree path and
  log path are the naming functions applied to the project and the id.
\<close>

theorem getWorkersInfo_shape:
  "\<exists>workers. getWorkersInfo h w cwd = Inr workers \<and> length workers = 4 \<and>
     map w_id workers = [1, 2, 3, 4] \<and>
     map sessionName workers =
       map (getWorkerSessionName (projectName (getProjectConfig cwd))) [1, 2, 3, 4] \<and>
     map worktreePath workers =
       map (getWorktreePath (worktreeBase (getProjectConfig cwd))) [1, 2, 3, 4] \<and>
     map logPath workers =
       map (getWorkerLogPath (projectName (getProjectConfig cwd))) [1, 2, 3, 4]"
  by (simp add: getWorkersInfo_eq snapshot_entry_def)

lemma slot_cases: "1 \<le> i \<Longrightarrow> i \<le> 4 \<Longrightarrow> i = 1 \<or> i = 2 \<or> i = 3 \<or> i = (4::int)"
  by arith

lemma snapshot_nth:
  "1 \<le> i \<Longrightarrow> i \<le> 4 \<Longrightarrow>
   map (snapshot_entry h w config) [1, 2, 3, 4] ! (nat i - 1) = snapshot_entry h w config i"
  using slot_cases[of i] by auto

text \<open>
  Claim C3, as the code has it. The hook replaces its cell by the fresh snapshot at every
  poll and keeps no earlier value: when the status file of a slot exists and its text does
  not parse, the status shown for the slot after the poll is absent, whatever was shown
  before.
\<close>

theorem poll_unparsable_absent:
  assumes "1 \<le> i" "i \<le> 4"
    and "nodes w (statusFile (hiveDir (getProjectConfig cwd)) i) = Some (File c)"
    and "parse_status h c = None"
  shows "\<exists>workers'. useWorkerStatus_poll h w cwd workers = Inr workers' \<and> length workers' = 4 \<and>
           w_status (workers' ! (nat i - 1)) = None \<and>
           shown_status (useWorkerStatus_poll h w cwd workers) i = None"
proof -
  let ?ws = "map (snapshot_entry h w (getProjectConfig cwd)) [1, 2, 3, 4]"
  have poll: "useWorkerStatus_poll h w cwd workers = Inr ?ws"
    by (simp only: useWorkerStatus_poll_def getWorkersInfo_eq)
  have len: "length ?ws = 4"
    by simp
  have "w_status (snapshot_entry h w (getProjectConfig cwd) i) = None"
    by (simp add: snapshot_entry_def readWorkerStatus_malformed [OF assms(3,4)])
  then have absent: "w_status (?ws ! (nat i - 1)) = None"
    by (simp only: snapshot_nth [OF assms(1,2)])
  have "1 \<le> i \<and> nat i \<le> length ?ws"
    using assms(1,2) by simp
  then have "shown_status (Inr ?ws) i = None"
    using absent by (simp add: shown_status_def del: list.map length_map nth_map)
  with poll len absent show ?thesis
    by metis
qed

theorem poll_unparsable_absent_witness:
  "(1::int) \<le> 1 \<and> (1::int) \<le> 4 \<and>
   nodes torn_world (statusFile (hiveDir (getProjectConfig scenario_cwd)) 1)
     = Some (File half_written_text) \<and>
   parse_status scenario_host half_written_text = None \<and>
   shown_status (useWorkerStatus_poll scenario_host torn_world scenario_cwd []) 1 = None"
proof -
  have torn: "nodes torn_world (statusFile (hiveDir (getProjectConfig scenario_cwd)) 1)
                = Some (File half_written_text)"
    by (simp add: torn_world_def with_file_def status1_path_def)
  have rejected: "parse_status scenario_host half_written_text = None"
    by (simp add: scenario_host_def scenario_parse_status_def half_written_text_def coding_text_def)
  have "shown_status (useWorkerStatus_poll scenario_host torn_world scenario_cwd []) 1 = None"
    using poll_unparsable_absent [OF _ _ torn rejected, of "[]"] by auto
  with torn rejected show ?thesis by simp
qed

text \<open>
  The claim as written fails: slot 1 showed the status \<open>coding\<close>; at the next poll its file
  is half written, and the status shown is absent, not the one shown before.
\<close>

theorem poll_torn_counterexample:
  "nodes torn_world status1_path = Some (File half_written_text) \<and>
   parse_status scenario_host half_written_text = None \<and>
   shown_status (useWorkerStatus scenario_host coding_world [] scenario_cwd) 1 = Some coding_doc \<and>
   shown_status (useWorkerStatus scenario_host coding_world [torn_world] scenario_cwd) 1 = None"
  by (simp add: useWorkerStatus_def useWorkerStatus_init_def useWorkerStatus_poll_def
      getWorkersInfo_eq shown_status_def snapshot_entry_def readWorkerStatus_def Let_def
      existsSync_def readFileSync_def JSON_parse_def torn_world_def coding_world_def with_file_def
      with_session_def bare_world_def status1_path_def scenario_host_def scenario_parse_status_def
      half_written_text_def coding_text_def)

section \<open>Properties of the configuration reader\<close>

lemma readConfigFile_none: "no_config h w p \<Longrightarrow> readConfigFile h w p = Inr Map.empty"
  by (auto simp: no_config_def readConfigFile_def existsSync_def readFileSync_def JSON_parse_def
      split: option.splits node.splits)

lemma readConfigFile_some: "has_config h w p v \<Longrightarrow> readConfigFile h w p = Inr v"
  by (auto simp: has_config_def readConfigFile_def existsSync_def readFileSync_def JSON_parse_def
      split: option.splits node.splits)

lemma readConfigFile_returns: "\<exists>v. readConfigFile h w p = Inr v"
  by (auto simp: readConfigFile_def split: sum.splits option.splits)

lemma getConfigValue_returns: "\<exists>v. getConfigValue h w home key root = Inr v"
proof -
  obtain g where g: "readConfigFile h w (GLOBAL_CONFIG_PATH home) = Inr g"
    using readConfigFile_returns by blast
  show ?thesis
  proof (cases "\<exists>r. root = Some r \<and> r \<noteq> []")
    case True
    then obtain r where r: "root = Some r" "r \<noteq> []" by blast
    obtain l where "readConfigFile h w (getLocalConfigPath r) = Inr l"
      using readConfigFile_returns by blast
    with g r show ?thesis
      by (simp add: getConfigValue_def getMergedConfig_def getGlobalConfig_def getLocalConfig_def)
  next
    case False
    with g show ?thesis
      by (cases root) (auto simp: getConfigValue_def getMergedConfig_def getGlobalConfig_def)
  qed
qed

text \<open>
  Claim C10. A configuration level whose file is missing, unreadable or not valid JSON
  counts as the empty configuration: \<^verbatim>\<open>getConfigValue\<close> always returns and never throws;
  with such a local file it returns the value of the global level, with such a global file
  the value of the local level, and with both it returns \<^verbatim>\<open>undefined\<close>. A corrupt local
  file therefore never hides a valid global value.
\<close>

theorem getConfigValue_levels:
  "(\<exists>v. getConfigValue h w home key root = Inr v) \<and>
   (r \<noteq> [] \<and> no_config h w (getLocalConfigPath r) \<and> has_config h w (GLOBAL_CONFIG_PATH home) g
      \<longrightarrow> getConfigValue h w home key (Some r) = Inr (g key)) \<and>
   (r \<noteq> [] \<and> no_config h w (GLOBAL_CONFIG_PATH home) \<and> has_config h w (getLocalConfigPath r) l
      \<longrightarrow> getConfigValue h w home key (Some r) = Inr (l key)) \<and>
   (r \<noteq> [] \<and> no_config h w (GLOBAL_CONFIG_PATH home) \<and> no_config h w (getLocalConfigPath r)
      \<longrightarrow> getConfigValue h w home key (Some r) = Inr None)"
  using getConfigValue_returns [of h w home key root]
  by (auto simp: getConfigValue_def getMergedConfig_def getGlobalConfig_def getLocalConfig_def
      readConfigFile_none readConfigFile_some)

lemma scenario_config_facts:
  "no_config scenario_host corrupt_local_world (getLocalConfigPath scenario_cwd)"
  "has_config scenario_host corrupt_local_world (GLOBAL_CONFIG_PATH scenario_home) [''theme'' \<mapsto> ''dark'']"
  "no_config scenario_host corrupt_global_world (GLOBAL_CONFIG_PATH scenario_home)"
  "has_config scenario_host corrupt_global_world (getLocalConfigPath scenario_cwd) [''theme'' \<mapsto> ''light'']"
  "no_config scenario_host corrupt_both_world (GLOBAL_CONFIG_PATH scenario_home)"
  "no_config scenario_host corrupt_both_world (getLocalConfigPath scenario_cwd)"
  by (simp_all add: no_config_def has_config_def corrupt_local_world_def corrupt_global_world_def
      corrupt_both_world_def with_file_def bare_world_def local_path_def global_path_def
      scenario_host_def scenario_parse_config_def half_written_text_def dark_text_def light_text_def)

theorem getConfigValue_levels_witness:
  "scenario_cwd \<noteq> [] \<and>
   no_config scenario_host corrupt_local_world (getLocalConfigPath scenario_cwd) \<and>
   has_config scenario_host corrupt_local_world (GLOBAL_CONFIG_PATH scenario_home) [''theme'' \<mapsto> ''dark''] \<and>
   getConfigValue scenario_host corrupt_local_world scenario_home ''theme'' (Some scenario_cwd)
     = Inr (Some ''dark'') \<and>
   no_config scenario_host corrupt_global_world (GLOBAL_CONFIG_PATH scenario_home) \<and>
   has_config scenario_host corrupt_global_world (getLocalConfigPath scenario_cwd) [''theme'' \<mapsto> ''light''] \<and>
   getConfigValue scenario_host corrupt_global_world scenario_home ''theme'' (Some scenario_cwd)
     = Inr (Some ''light'') \<and>
   no_config scenario_host corrupt_both_world (GLOBAL_CONFIG_PATH scenario_home) \<and>
   no_config scenario_host corrupt_both_world (getLocalConfigPath scenario_cwd) \<and>
   getConfigValue scenario_host corrupt_both_world scenario_home ''theme'' (Some scenario_cwd)
     = Inr None"
proof -
  have ne: "scenario_cwd \<noteq> []"
    by (simp add: scenario_cwd_def)
  have "getConfigValue scenario_host corrupt_local_world scenario_home ''theme'' (Some scenario_cwd)
          = Inr ([''theme'' \<mapsto> ''dark''] ''theme'')"
    using getConfigValue_levels ne scenario_config_facts(1,2) by blast
  moreover
  have "getConfigValue scenario_host corrupt_global_world scenario_home ''theme'' (Some scenario_cwd)
          = Inr ([''theme'' \<mapsto> ''light''] ''theme'')"
    using getConfigValue_levels ne scenario_config_facts(3,4) by blast
  moreover
  have "getConfigValue scenario_host corrupt_both_world scenario_home ''theme'' (Some scenario_cwd)
          = Inr None"
    using getConfigValue_levels ne scenario_config_facts(5,6) by blast
  ultimately show ?thesis
    using ne scenario_config_facts by simp
qed

section \<open>Properties of the worktree provisioner\<close>

lemma createWorktree_second_call:
  assumes "createWorktree h root wbase i b w = (Inr p, w1)"
    and "existsSync w1 (getWorktreePath wbase i)"
  shows "createWorktree h root wbase i b w1 = (Inr (getWorktreePath wbase i), w1)"
proof -
  have "existsSync w1 wbase"
    using assms(1)
    by (auto simp: createWorktree_def Let_def mkdirSync_def existsSync_def git_worktree_add_def
        split: if_splits sum.splits prod.splits bool.splits)
  with assms(2) show ?thesis by (simp add: createWorktree_def)
qed



section \<open>Properties of the worker lifecycle\<close>

text \<open>
  A start on the bare world of the scenario: the worktree is asked for, the log file is
  emptied, and the session is created with its output piped to the log, mouse on and the
  agent launched.
\<close>

lemma startWorker_scenario:
  "fst (startWorker scenario_host scenario_cwd 2 bare_world) = Inr True \<and>
   fst (snd (startWorker scenario_host scenario_cwd 2 bare_world))
     = [(Out, ''  Worker-2 started (hive-proj-worker-2)'')] \<and>
   sessions (snd (snd (startWorker scenario_host scenario_cwd 2 bare_world))) ''hive-proj-worker-2''
     = Some \<lparr> s_cwd = ''/home/u/.worktrees/proj/worker-2'',
              s_piped = Some ''cat >> /tmp/hive-proj-worker-2.log'', s_mouse = True,
              s_sent = [''claude --dangerously-skip-permissions''] \<rparr> \<and>
   nodes (snd (snd (startWorker scenario_host scenario_cwd 2 bare_world))) ''/tmp/hive-proj-worker-2.log''
     = Some (File []) \<and>
   git_calls (snd (snd (startWorker scenario_host scenario_cwd 2 bare_world)))
     = [(''/home/u/proj'', ''/home/u/.worktrees/proj/worker-2'', ''worker-2-workspace'')]"
  by (simp add: startWorker_def sessionExists_def createWorktree_def existsSync_def mkdirSync_def
      git_worktree_add_def writeFileSync_def tmux_def bare_world_def scenario_host_def Let_def)

lemma killWorker_absent:
  "\<not> sessionExists h (getWorkerSessionName (projectName (getProjectConfig cwd)) i) w \<Longrightarrow>
   killWorker h cwd i w = (Inr True, [], w)"
  by (simp add: killWorker_def)

lemma bare_world_no_session: "\<not> sessionExists h n bare_world"
  by (simp add: sessionExists_def bare_world_def)

text \<open>
  Claim C6. For a slot (1 to 4) whose session does not exist, on a host where the settle
  delay \<^verbatim>\<open>sleep 1\<close> runs: the kill step changes nothing and succeeds, and \<^verbatim>\<open>restartWorker\<close>
  ends as \<^verbatim>\<open>startWorker\<close> does, with the same state of host and filesystem, and throwing
  exactly when \<^verbatim>\<open>startWorker\<close> throws. Only the lines printed around the start differ.
\<close>

theorem restart_absent_is_start:
  assumes "1 \<le> i" and "i \<le> 4"
    and "\<not> sessionExists h (getWorkerSessionName (projectName (getProjectConfig cwd)) i) w"
    and "ok h Sleep w"
  shows "killWorker h cwd i w = (Inr True, [], w) \<and>
         effect (restartWorker h cwd i w) = effect (startWorker h cwd i w)"
  using assms
  by (auto simp: restartWorker_def killWorker_absent WORKER_COUNT_def effect_def Let_def
      split: prod.splits sum.splits)

theorem restart_absent_is_start_witness:
  "(1::int) \<le> 2 \<and> (2::int) \<le> 4 \<and>
   \<not> sessionExists scenario_host
       (getWorkerSessionName (projectName (getProjectConfig scenario_cwd)) 2) bare_world \<and>
   ok scenario_host Sleep bare_world \<and>
   killWorker scenario_host scenario_cwd 2 bare_world = (Inr True, [], bare_world) \<and>
   effect (restartWorker scenario_host scenario_cwd 2 bare_world)
     = effect (startWorker scenario_host scenario_cwd 2 bare_world)"
proof -
  have sleep: "ok scenario_host Sleep bare_world"
    by (simp add: scenario_host_def)
  from restart_absent_is_start [OF _ _ bare_world_no_session sleep, of 2 scenario_cwd]
    bare_world_no_session sleep
  show ?thesis by simp
qed

text \<open>
  Claim C7, as the code has it. For a slot whose session does not exist, \<^verbatim>\<open>stopWorker\<close>
  changes nothing, prints that the worker is not running on the standard output, does not
  throw, and returns \<open>false\<close>; calling it again does the same.
\<close>

theorem stopWorker_absent:
  assumes "\<not> sessionExists h (getWorkerSessionName (projectName (getProjectConfig cwd)) i) w"
  shows "stopWorker h cwd i w
           = (Inr False, [(Out, ''  Worker-'' @ show_int i @ '' not running'')], w) \<and>
         stopWorker h cwd i (snd (snd (stopWorker h cwd i w))) = stopWorker h cwd i w"
  using assms by (simp add: stopWorker_def)

theorem stopWorker_absent_witness:
  "\<not> sessionExists scenario_host
       (getWorkerSessionName (projectName (getProjectConfig scenario_cwd)) 2) bare_world \<and>
   stopWorker scenario_host scenario_cwd 2 bare_world
     = (Inr False, [(Out, ''  Worker-2 not running'')], bare_world)"
  using stopWorker_absent [OF bare_world_no_session, of scenario_host scenario_cwd 2]
    bare_world_no_session [of scenario_host]
  by simp

text \<open>
  The claim as written fails on the result: \<open>false\<close> is what \<^verbatim>\<open>stopWorker\<close> returns when
  the session is there and the host refuses the keys, and it is what it returns for a
  session that is not there.
\<close>

theorem stopWorker_absent_counterexample:
  "\<not> sessionExists scenario_host ''hive-proj-worker-2'' bare_world \<and>
   fst (stopWorker scenario_host scenario_cwd 2 bare_world) = Inr False \<and>
   sessionExists deaf_host ''hive-proj-worker-1'' coding_world \<and>
   fst (stopWorker deaf_host scenario_cwd 1 coding_world) = Inr False \<and>
   fst (snd (stopWorker deaf_host scenario_cwd 1 coding_world))
     = [(Err, ''  Failed to stop Worker-1: Error'')]"
  by (simp add: stopWorker_def sessionExists_def tmux_def bare_world_def coding_world_def
      with_session_def with_file_def deaf_host_def scenario_host_def)

section \<open>Properties of the modal key dispatcher\<close>



















section \<open>Properties of the log tail\<close>

lemma pollLog_missing: "\<not> existsSync w p \<Longrightarrow> pollLog h w p st = st"
  by (simp add: pollLog_def)

lemma pollLog_not_grown: "statSync h w p = Inr n \<Longrightarrow> n \<le> lastSize st \<Longrightarrow> pollLog h w p st = st"
  by (simp add: pollLog_def)

lemma pollLog_grown:
  "nodes w p = Some (File c) \<Longrightarrow> ok h (Stat p) w \<Longrightarrow> ok h (ReadFile p) w \<Longrightarrow>
   lastSize st < length c \<Longrightarrow>
   pollLog h w p st = \<lparr> lastSize = length c, lines = recent_lines c \<rparr>"
  by (simp add: pollLog_def existsSync_def statSync_def readFileSync_def)

text \<open>
  Claim C8, as the code has it. A poll that finds the file gone, or no larger than the size
  last seen, leaves the tracked size and the lines as they were: nothing is reset. A poll
  that finds the file larger than the size last seen reads the whole file, shows its last
  lines and tracks the new size.
\<close>

theorem pollLog_keeps_size:
  "(\<not> existsSync w p \<longrightarrow> pollLog h w p st = st) \<and>
   (\<forall>n. statSync h w p = Inr n \<and> n \<le> lastSize st \<longrightarrow> pollLog h w p st = st) \<and>
   (\<forall>c. nodes w p = Some (File c) \<and> ok h (Stat p) w \<and> ok h (ReadFile p) w \<and> lastSize st < length c
        \<longrightarrow> pollLog h w p st = \<lparr> lastSize = length c, lines = recent_lines c \<rparr>)"
  using pollLog_missing pollLog_not_grown pollLog_grown by blast

lemma two_lines_facts:
  "recent_lines two_lines_text = [''line one'', ''line two'']" "length two_lines_text = 18"
  "length fresh_text = 6" "length grown_text = 11" "two_lines_text \<noteq> []"
  by (simp_all add: recent_lines_def is_space_def MAX_LINES_def two_lines_text_def fresh_text_def
      grown_text_def)

theorem pollLog_keeps_size_witness:
  "\<not> existsSync bare_world log1_path \<and>
   pollLog scenario_host bare_world log1_path \<lparr> lastSize = 18, lines = [''line one'', ''line two''] \<rparr>
     = \<lparr> lastSize = 18, lines = [''line one'', ''line two''] \<rparr> \<and>
   statSync scenario_host short_log_world log1_path = Inr 6 \<and> (6::nat) \<le> 18 \<and>
   pollLog scenario_host short_log_world log1_path \<lparr> lastSize = 18, lines = [''line one'', ''line two''] \<rparr>
     = \<lparr> lastSize = 18, lines = [''line one'', ''line two''] \<rparr> \<and>
   nodes long_log_world log1_path = Some (File two_lines_text) \<and>
   ok scenario_host (Stat log1_path) long_log_world \<and>
   ok scenario_host (ReadFile log1_path) long_log_world \<and>
   pollLog scenario_host long_log_world log1_path useWorkerLogs_reset
     = \<lparr> lastSize = 18, lines = [''line one'', ''line two''] \<rparr>"
proof -
  let ?st = "\<lparr> lastSize = 18, lines = [''line one'', ''line two''] \<rparr>"
  have gone: "\<not> existsSync bare_world log1_path"
    by (simp add: existsSync_def bare_world_def)
  have shrunk: "statSync scenario_host short_log_world log1_path = Inr 6"
    by (simp add: statSync_def short_log_world_def with_file_def scenario_host_def two_lines_facts)
  have full: "nodes long_log_world log1_path = Some (File two_lines_text)"
    by (simp add: long_log_world_def with_file_def)
  have oks: "ok scenario_host (Stat log1_path) long_log_world"
    "ok scenario_host (ReadFile log1_path) long_log_world"
    by (simp_all add: scenario_host_def)
  have "pollLog scenario_host bare_world log1_path ?st = ?st"
    using pollLog_keeps_size [of bare_world log1_path scenario_host ?st] gone by blast
  moreover have "pollLog scenario_host short_log_world log1_path ?st = ?st"
    using pollLog_keeps_size [of short_log_world log1_path scenario_host ?st] shrunk by simp
  moreover have "pollLog scenario_host long_log_world log1_path useWorkerLogs_reset = ?st"
    using pollLog_keeps_size [of long_log_world log1_path scenario_host useWorkerLogs_reset] full oks
    by (simp add: useWorkerLogs_reset_def two_lines_facts)
  ultimately show ?thesis
    using gone shrunk full oks by simp
qed

text \<open>
  The claim as written fails: after a log of 18 bytes was read, the file is replaced by one
  of 6 bytes, then grows to 11, or disappears and comes back; the tracked size stays 18 and
  the lines shown stay the old ones, so the new content is not picked up.
\<close>

theorem pollLog_shrink_counterexample:
  "useWorkerLogs scenario_host [long_log_world] ''proj'' 1
     = \<lparr> lastSize = 18, lines = [''line one'', ''line two''] \<rparr> \<and>
   statSync scenario_host short_log_world log1_path = Inr 6 \<and>
   useWorkerLogs scenario_host [long_log_world, short_log_world] ''proj'' 1
     = \<lparr> lastSize = 18, lines = [''line one'', ''line two''] \<rparr> \<and>
   useWorkerLogs scenario_host [long_log_world, short_log_world, grown_log_world] ''proj'' 1
     = \<lparr> lastSize = 18, lines = [''line one'', ''line two''] \<rparr> \<and>
   \<not> existsSync bare_world log1_path \<and>
   useWorkerLogs scenario_host [long_log_world, bare_world, short_log_world] ''proj'' 1
     = \<lparr> lastSize = 18, lines = [''line one'', ''line two''] \<rparr>"
  by (simp add: useWorkerLogs_def log1_path_def useWorkerLogs_reset_def pollLog_def existsSync_def
      statSync_def readFileSync_def long_log_world_def short_log_world_def grown_log_world_def
      with_file_def bare_world_def scenario_host_def two_lines_facts)

section \<open>Properties of the display\<close>

lemma shown_status_parsed:
  assumes "1 \<le> i" "i \<le> 4"
    and "nodes w (statusFile (hiveDir (getProjectConfig cwd)) i) = Some (File c)"
    and "ok h (ReadFile (statusFile (hiveDir (getProjectConfig cwd)) i)) w"
    and "parse_status h c = Some d"
  shows "shown_status (getWorkersInfo h w cwd) i = Some d"
proof -
  let ?ws = "map (snapshot_entry h w (getProjectConfig cwd)) [1, 2, 3, 4]"
  have "w_status (snapshot_entry h w (getProjectConfig cwd) i) = Some d"
    by (simp add: snapshot_entry_def readWorkerStatus_parsed [OF assms(3,4,5)])
  then have "w_status (?ws ! (nat i - 1)) = Some d"
    by (simp only: snapshot_nth [OF assms(1,2)])
  moreover have "1 \<le> i \<and> nat i \<le> length ?ws"
    using assms(1,2) by simp
  ultimately have "shown_status (Inr ?ws) i = Some d"
    by (simp add: shown_status_def del: list.map length_map nth_map)
  then show ?thesis
    by (simp only: getWorkersInfo_eq)
qed

text \<open>
  Claim C4, as the code has it. A status document the runtime parses is accepted whatever
  its \<^verbatim>\<open>percent\<close>: the snapshot holds the document as parsed, with \<^verbatim>\<open>percent\<close> as written.
  Neither the worker listing nor the dashboard card reads \<^verbatim>\<open>percent\<close>: both are the same
  for every value of it, so no value of \<^verbatim>\<open>percent\<close> is displayed, clamped or not.
\<close>

theorem percent_shown_as_written:
  assumes "1 \<le> i" "i \<le> 4"
    and "nodes w (statusFile (hiveDir (getProjectConfig cwd)) i) = Some (File c)"
    and "ok h (ReadFile (statusFile (hiveDir (getProjectConfig cwd)) i)) w"
    and "parse_status h c = Some d"
  shows "shown_status (getWorkersInfo h w cwd) i = Some d \<and>
         shown_percent (getWorkersInfo h w cwd) i = ws_percent d \<and>
         worker_lines (info\<lparr>w_status := Some (d\<lparr>ws_percent := p\<rparr>)\<rparr>)
           = worker_lines (info\<lparr>w_status := Some d\<rparr>) \<and>
         WorkerCard columns (info\<lparr>w_status := Some (d\<lparr>ws_percent := p\<rparr>)\<rparr>) logs selected compact
           = WorkerCard columns (info\<lparr>w_status := Some d\<rparr>) logs selected compact"
  using shown_status_parsed [OF assms]
  by (simp add: shown_percent_def worker_lines_def WorkerCard_def)

lemma coding_world_facts:
  "nodes coding_world (statusFile (hiveDir (getProjectConfig scenario_cwd)) 1) = Some (File coding_text)"
  "ok scenario_host (ReadFile (statusFile (hiveDir (getProjectConfig scenario_cwd)) 1)) coding_world"
  "parse_status scenario_host coding_text = Some coding_doc"
  by (simp_all add: coding_world_def with_file_def with_session_def status1_path_def
      scenario_host_def scenario_parse_status_def)

theorem percent_shown_as_written_witness:
  "(1::int) \<le> 1 \<and> (1::int) \<le> 4 \<and>
   nodes coding_world (statusFile (hiveDir (getProjectConfig scenario_cwd)) 1)
     = Some (File coding_text) \<and>
   ok scenario_host (ReadFile (statusFile (hiveDir (getProjectConfig scenario_cwd)) 1)) coding_world \<and>
   parse_status scenario_host coding_text = Some coding_doc \<and>
   shown_percent (getWorkersInfo scenario_host coding_world scenario_cwd) 1 = Some 150 \<and>
   worker_lines
       ((snapshot_entry scenario_host coding_world (getProjectConfig scenario_cwd) 1)
          \<lparr>w_status := Some (coding_doc\<lparr>ws_percent := Some 100\<rparr>)\<rparr>)
     = worker_lines
         ((snapshot_entry scenario_host coding_world (getProjectConfig scenario_cwd) 1)
            \<lparr>w_status := Some coding_doc\<rparr>)"
proof -
  note shown = percent_shown_as_written [OF _ _ coding_world_facts,
      of "Some 100" "snapshot_entry scenario_host coding_world (getProjectConfig scenario_cwd) 1"]
  have "shown_percent (getWorkersInfo scenario_host coding_world scenario_cwd) 1 = ws_percent coding_doc"
    using shown by simp
  moreover have "worker_lines
       ((snapshot_entry scenario_host coding_world (getProjectConfig scenario_cwd) 1)
          \<lparr>w_status := Some (coding_doc\<lparr>ws_percent := Some 100\<rparr>)\<rparr>)
     = worker_lines
         ((snapshot_entry scenario_host coding_world (getProjectConfig scenario_cwd) 1)
            \<lparr>w_status := Some coding_doc\<rparr>)"
    using shown by simp
  ultimately show ?thesis
    using coding_world_facts by (simp add: coding_doc_def)
qed

text \<open>
  The claim as written fails: slot 1 runs and its document says \<^verbatim>\<open>percent\<close> 150; the
  aggregated state holds 150, not 100, and the listing shows no percentage at all.
\<close>

theorem percent_clamp_counterexample:
  "ws_percent coding_doc = Some 150 \<and>
   shown_percent (getWorkersInfo scenario_host coding_world scenario_cwd) 1 = Some 150 \<and>
   shown_percent (getWorkersInfo scenario_host coding_world scenario_cwd) 1 \<noteq> Some 100 \<and>
   listWorkers scenario_host coding_world scenario_cwd
     = Inr [ESC @ ''[34m'' @ bee @ '' HiveCode Workers'' @ ESC @ ''[0m'',
            ''   Project: proj'',
            [],
            ''  '' @ ESC @ ''[32m'' @ [CHR 0xE2, CHR 0x97, CHR 0x8F] @ ESC @ ''[0m''
              @ '' Worker-1  running   coding        feature/x'',
            ''  '' @ ESC @ ''[90m'' @ [CHR 0xE2, CHR 0x97, CHR 0x8B] @ ESC @ ''[0m''
              @ '' Worker-2  stopped   unknown       -'',
            ''  '' @ ESC @ ''[90m'' @ [CHR 0xE2, CHR 0x97, CHR 0x8B] @ ESC @ ''[0m''
              @ '' Worker-3  stopped   unknown       -'',
            ''  '' @ ESC @ ''[90m'' @ [CHR 0xE2, CHR 0x97, CHR 0x8B] @ ESC @ ''[0m''
              @ '' Worker-4  stopped   unknown       -'',
            []]"
  by (simp add: shown_percent_def shown_status_def listWorkers_def getWorkersInfo_eq
      snapshot_entry_def worker_lines_def or_else_def padEnd_def readWorkerStatus_def Let_def
      existsSync_def readFileSync_def JSON_parse_def sessionExists_def coding_world_def
      with_file_def with_session_def bare_world_def status1_path_def scenario_host_def
      scenario_parse_status_def coding_doc_def getWorkerSessionName_def ESC_def numeral_eq_Suc)

end
